theory Spec2Isabelle
  imports Main
begin

section \<open>Python values, JSON documents and text\<close>

text \<open>
  The weather bot passes the provider's decoded JSON around as ordinary Python objects,
  stores them in a dictionary keyed by the Telegram user id and writes that dictionary to
  \<^verbatim>\<open>data.json\<close> with the \<^verbatim>\<open>json\<close> module. The embedding keeps the
  three layers apart:
  \<^item> \<open>pyval\<close>: the Python objects the handlers see. A dictionary is an association list in
    insertion order; its keys are the two kinds of key that occur, \<open>int\<close> (the user id) and
    \<open>str\<close> (everything read from JSON).
  \<^item> \<open>json\<close>: the document held by the backing file, as the tree \<^verbatim>\<open>json.load\<close> parses.
    Member names are strings and may repeat.
  \<^item> text: \<open>string\<close>, one \<open>char\<close> per code point, which covers code points below 256
    (the degree sign of the replies is \<open>CHR 0xB0\<close>).

  A float is carried as the text Python's \<^verbatim>\<open>repr\<close> prints for it. That text determines
  the float, it is what an f-string prints and what \<^verbatim>\<open>json.dump\<close> writes.
\<close>

datatype py_error =
    KeyError | IndexError | TypeError | AttributeError
  | FileNotFoundError | PermissionError | JSONDecodeError | ConnectionError

datatype pykey = KInt int | KStr string

datatype pyval =
    PNone
  | PBool bool
  | PInt int
  | PFloat string
  | PStr string
  | PList "pyval list"
  | PDict "(pykey \<times> pyval) list"

datatype json =
    JNull
  | JBool bool
  | JInt int
  | JFloat string
  | JString string
  | JArray "json list"
  | JObject "(string \<times> json) list"

subsection \<open>Errors as values\<close>

definition bind_err :: "py_error + 'a \<Rightarrow> ('a \<Rightarrow> py_error + 'b) \<Rightarrow> py_error + 'b" where
  "bind_err r f = (case r of Inl e \<Rightarrow> Inl e | Inr x \<Rightarrow> f x)"

text \<open>A \<^verbatim>\<open>for\<close> loop that builds a list and is left by the first exception.\<close>

fun collect :: "('a \<Rightarrow> py_error + 'b) \<Rightarrow> 'a list \<Rightarrow> py_error + 'b list" where
  "collect f [] = Inr []"
| "collect f (x # xs) =
     (case f x of
        Inl e \<Rightarrow> Inl e
      | Inr y \<Rightarrow> (case collect f xs of Inl e \<Rightarrow> Inl e | Inr ys \<Rightarrow> Inr (y # ys)))"

subsection \<open>Text\<close>

definition newline :: char where
  "newline = CHR 0x0A"

definition backslash :: char where
  "backslash = CHR 0x5C"

definition degree :: char where
  "degree = CHR 0xB0"

text \<open>\<^verbatim>\<open>sep.join(parts)\<close>\<close>

fun join :: "string \<Rightarrow> string list \<Rightarrow> string" where
  "join sep [] = []"
| "join sep [x] = x"
| "join sep (x # y # ys) = x @ sep @ join sep (y # ys)"

text \<open>\<^verbatim>\<open>str.isspace\<close> on one code point below 256.\<close>

definition isspace :: "char \<Rightarrow> bool" where
  "isspace c =
     (let n = (of_char c :: nat)
      in (9 \<le> n \<and> n \<le> 13) \<or> (28 \<le> n \<and> n \<le> 32) \<or> n = 133 \<or> n = 160)"

text \<open>
  \<^verbatim>\<open>text.split(maxsplit=1)\<close>: leading whitespace is skipped, the first run of
  non-whitespace is the first part, the whitespace after it is skipped, and whatever is
  left (trailing whitespace included) is the second part.
\<close>

definition split_maxsplit1 :: "string \<Rightarrow> string list" where
  "split_maxsplit1 s =
     (let s1 = dropWhile isspace s
      in if s1 = [] then []
         else let word = takeWhile (\<lambda>c. \<not> isspace c) s1;
                  rest = dropWhile isspace (dropWhile (\<lambda>c. \<not> isspace c) s1)
              in if rest = [] then [word] else [word, rest])"

text \<open>
  \<^verbatim>\<open>str.capitalize\<close>: the first character in title case, \<^emph>\<open>every other character in
  lower case\<close>. The case mappings are Unicode's on the code points below 256: the capitals
  are \<open>A\<close> to \<open>Z\<close> and \<open>0xC0\<close> to \<open>0xDE\<close> without the multiplication sign \<open>0xD7\<close>, each
  32 below its small letter, and the title case of the sharp s \<open>0xDF\<close> is the two
  characters \<open>Ss\<close>. Every other character is its own lower and title case, with two
  exceptions: the capitals of the micro sign \<open>0xB5\<close> and of y with diaeresis \<open>0xFF\<close>
  have code points above 255 and so are no text of this model. \<open>to_title\<close> keeps these two
  characters, and \<open>title_in_text\<close> tells that a text does not start with one of them.
\<close>

definition is_upper :: "char \<Rightarrow> bool" where
  "is_upper c =
     (let n = (of_char c :: nat)
      in (65 \<le> n \<and> n \<le> 90) \<or> (192 \<le> n \<and> n \<le> 222 \<and> n \<noteq> 215))"

definition small_letter :: "char \<Rightarrow> bool" where
  "small_letter c =
     (let n = (of_char c :: nat)
      in (97 \<le> n \<and> n \<le> 122) \<or> (224 \<le> n \<and> n \<le> 254 \<and> n \<noteq> 247))"

definition to_lower :: "char \<Rightarrow> char" where
  "to_lower c = (if is_upper c then char_of ((of_char c :: nat) + 32) else c)"

definition to_title :: "char \<Rightarrow> string" where
  "to_title c =
     (if small_letter c then [char_of ((of_char c :: nat) - 32)]
      else if c = CHR 0xDF then ''Ss''
      else [c])"

fun title_in_text :: "string \<Rightarrow> bool" where
  "title_in_text [] = True"
| "title_in_text (c # cs) = (c \<noteq> CHR 0xB5 \<and> c \<noteq> CHR 0xFF)"

fun capitalize :: "string \<Rightarrow> string" where
  "capitalize [] = []"
| "capitalize (c # cs) = to_title c @ map to_lower cs"

subsection \<open>Printing values: \<^verbatim>\<open>str\<close> and \<^verbatim>\<open>repr\<close>\<close>

definition digit_char :: "nat \<Rightarrow> char" where
  "digit_char d = char_of (48 + d)"

function digits10 :: "nat \<Rightarrow> string" where
  "digits10 n = (if n < 10 then [digit_char n] else digits10 (n div 10) @ [digit_char (n mod 10)])"
  by pat_completeness auto
termination
  by (relation "measure id") auto

definition str_int :: "int \<Rightarrow> string" where
  "str_int i = (if i < 0 then CHR ''-'' # digits10 (nat (- i)) else digits10 (nat i))"

definition hex_char :: "nat \<Rightarrow> char" where
  "hex_char d = (if d < 10 then char_of (48 + d) else char_of (87 + d))"

text \<open>\<^verbatim>\<open>str.isprintable\<close> on one code point below 256.\<close>

definition printable :: "char \<Rightarrow> bool" where
  "printable c =
     (let n = (of_char c :: nat) in (32 \<le> n \<and> n < 127) \<or> (161 \<le> n \<and> n \<noteq> 173))"

text \<open>One character of \<^verbatim>\<open>repr(s)\<close>, inside the quote \<open>q\<close>.\<close>

definition repr_char :: "char \<Rightarrow> char \<Rightarrow> string" where
  "repr_char q c =
     (if c = q \<or> c = backslash then [backslash, c]
      else if c = CHR 0x09 then [backslash, CHR ''t'']
      else if c = CHR 0x0A then [backslash, CHR ''n'']
      else if c = CHR 0x0D then [backslash, CHR ''r'']
      else if printable c then [c]
      else [backslash, CHR ''x'',
            hex_char ((of_char c :: nat) div 16), hex_char ((of_char c :: nat) mod 16)])"

text \<open>
  \<^verbatim>\<open>repr\<close> of a string: single quotes, unless the text has a single quote and no double
  quote.
\<close>

definition repr_str :: "string \<Rightarrow> string" where
  "repr_str s =
     (let q = (if CHR 0x27 \<in> set s \<and> CHR 0x22 \<notin> set s then CHR 0x22 else CHR 0x27)
      in q # concat (map (repr_char q) s) @ [q])"

definition repr_key :: "pykey \<Rightarrow> string" where
  "repr_key k = (case k of KInt i \<Rightarrow> str_int i | KStr s \<Rightarrow> repr_str s)"

primrec py_repr :: "pyval \<Rightarrow> string" where
  "py_repr PNone = ''None''"
| "py_repr (PBool b) = (if b then ''True'' else ''False'')"
| "py_repr (PInt i) = str_int i"
| "py_repr (PFloat r) = r"
| "py_repr (PStr s) = repr_str s"
| "py_repr (PList xs) = ''['' @ join '', '' (map py_repr xs) @ '']''"
| "py_repr (PDict kvs) =
     ''{'' @ join '', '' (map (\<lambda>(k, r). repr_key k @ '': '' @ r) (map (map_prod id py_repr) kvs))
     @ ''}''"

text \<open>What an f-string field \<^verbatim>\<open>{v}\<close> prints: \<^verbatim>\<open>str(v)\<close>.\<close>

definition py_str :: "pyval \<Rightarrow> string" where
  "py_str v = (case v of PStr s \<Rightarrow> s | _ \<Rightarrow> py_repr v)"

subsection \<open>Comparisons, truth, subscripts\<close>

text \<open>
  \<^verbatim>\<open>v == n\<close> for an integer \<open>n\<close>. An \<open>int\<close>, a \<open>bool\<close> (\<open>True == 1\<close>) and a float
  can be equal to it; the float test compares with the \<^verbatim>\<open>repr\<close> of \<open>float(n)\<close>, which has
  this form for \<open>\<bar>n\<bar> < 10^16\<close>.
\<close>

fun py_eq_int :: "pyval \<Rightarrow> int \<Rightarrow> bool" where
  "py_eq_int (PInt i) n = (i = n)"
| "py_eq_int (PBool b) n = ((if b then 1 else 0) = n)"
| "py_eq_int (PFloat r) n = (r = str_int n @ ''.0'' \<or> (n = 0 \<and> r = ''-0.0''))"
| "py_eq_int _ n = False"

text \<open>\<^verbatim>\<open>v == s\<close> for a string \<open>s\<close>.\<close>

fun py_eq_str :: "pyval \<Rightarrow> string \<Rightarrow> bool" where
  "py_eq_str (PStr t) s = (t = s)"
| "py_eq_str _ s = False"

text \<open>\<^verbatim>\<open>bool(v)\<close>, as \<^verbatim>\<open>not v\<close> tests it.\<close>

fun py_truthy :: "pyval \<Rightarrow> bool" where
  "py_truthy PNone = False"
| "py_truthy (PBool b) = b"
| "py_truthy (PInt i) = (i \<noteq> 0)"
| "py_truthy (PFloat r) = (r \<noteq> ''0.0'' \<and> r \<noteq> ''-0.0'')"
| "py_truthy (PStr s) = (s \<noteq> [])"
| "py_truthy (PList xs) = (xs \<noteq> [])"
| "py_truthy (PDict kvs) = (kvs \<noteq> [])"

text \<open>\<^verbatim>\<open>d[k] = v\<close> on a dictionary: an existing key keeps its place, a new one goes last.\<close>

fun dict_set :: "(pykey \<times> pyval) list \<Rightarrow> pykey \<Rightarrow> pyval \<Rightarrow> (pykey \<times> pyval) list" where
  "dict_set [] k v = [(k, v)]"
| "dict_set ((k', v') # kvs) k v =
     (if k' = k then (k', v) # kvs else (k', v') # dict_set kvs k v)"

text \<open>\<^verbatim>\<open>v.get(k, default)\<close>: only a dictionary has the method.\<close>

fun py_get :: "pyval \<Rightarrow> string \<Rightarrow> pyval \<Rightarrow> py_error + pyval" where
  "py_get (PDict kvs) k dflt = Inr (case map_of kvs (KStr k) of None \<Rightarrow> dflt | Some v \<Rightarrow> v)"
| "py_get _ k dflt = Inl AttributeError"

text \<open>\<^verbatim>\<open>v['k']\<close> with a string key.\<close>

fun py_getitem_key :: "pyval \<Rightarrow> string \<Rightarrow> py_error + pyval" where
  "py_getitem_key (PDict kvs) k =
     (case map_of kvs (KStr k) of None \<Rightarrow> Inl KeyError | Some v \<Rightarrow> Inr v)"
| "py_getitem_key _ k = Inl TypeError"

text \<open>
  \<^verbatim>\<open>v[i]\<close> with an integer: a position of a list or a string (negative ones count from
  the end), a key of a dictionary.
\<close>

definition position :: "nat \<Rightarrow> int \<Rightarrow> nat option" where
  "position n i =
     (let j = (if i < 0 then int n + i else i)
      in if 0 \<le> j \<and> j < int n then Some (nat j) else None)"

fun py_getitem_int :: "pyval \<Rightarrow> int \<Rightarrow> py_error + pyval" where
  "py_getitem_int (PList xs) i =
     (case position (length xs) i of None \<Rightarrow> Inl IndexError | Some j \<Rightarrow> Inr (xs ! j))"
| "py_getitem_int (PStr s) i =
     (case position (length s) i of None \<Rightarrow> Inl IndexError | Some j \<Rightarrow> Inr (PStr [s ! j]))"
| "py_getitem_int (PDict kvs) i =
     (case map_of kvs (KInt i) of None \<Rightarrow> Inl KeyError | Some v \<Rightarrow> Inr v)"
| "py_getitem_int _ i = Inl TypeError"

text \<open>The items a \<^verbatim>\<open>for\<close> loop over \<open>v\<close> visits.\<close>

definition key_value :: "pykey \<Rightarrow> pyval" where
  "key_value k = (case k of KInt i \<Rightarrow> PInt i | KStr s \<Rightarrow> PStr s)"

fun py_iter :: "pyval \<Rightarrow> py_error + pyval list" where
  "py_iter (PList xs) = Inr xs"
| "py_iter (PStr s) = Inr (map (\<lambda>c. PStr [c]) s)"
| "py_iter (PDict kvs) = Inr (map (key_value \<circ> fst) kvs)"
| "py_iter _ = Inl TypeError"

subsection \<open>\<^verbatim>\<open>json.dump\<close> and \<^verbatim>\<open>json.load\<close>\<close>

text \<open>
  \<^verbatim>\<open>json.dump\<close> writes every dictionary key as a JSON string: a \<open>str\<close> key as it is, an
  \<open>int\<close> key as its decimal digits. Two keys of one dictionary can so become the same
  member name.
\<close>

definition key_text :: "pykey \<Rightarrow> string" where
  "key_text k = (case k of KInt i \<Rightarrow> str_int i | KStr s \<Rightarrow> s)"

primrec encode :: "pyval \<Rightarrow> json" where
  "encode PNone = JNull"
| "encode (PBool b) = JBool b"
| "encode (PInt i) = JInt i"
| "encode (PFloat r) = JFloat r"
| "encode (PStr s) = JString s"
| "encode (PList xs) = JArray (map encode xs)"
| "encode (PDict kvs) = JObject (map (map_prod key_text id) (map (map_prod id encode) kvs))"

text \<open>
  \<^verbatim>\<open>json.load\<close> builds a dictionary with \<open>str\<close> keys by inserting the members in order, so
  of a repeated name the last value stays.
\<close>

definition dict_of_members :: "(string \<times> pyval) list \<Rightarrow> (pykey \<times> pyval) list" where
  "dict_of_members ms = foldl (\<lambda>d (k, v). dict_set d (KStr k) v) [] ms"

primrec decode :: "json \<Rightarrow> pyval" where
  "decode JNull = PNone"
| "decode (JBool b) = PBool b"
| "decode (JInt i) = PInt i"
| "decode (JFloat r) = PFloat r"
| "decode (JString s) = PStr s"
| "decode (JArray xs) = PList (map decode xs)"
| "decode (JObject ms) = PDict (dict_of_members (map (map_prod id decode) ms))"

section \<open>The history store (data\_storage.py)\<close>

text \<open>
  \<open>disk\<close> is what \<^verbatim>\<open>data.json\<close> is when the process opens it: no such file, a file that
  cannot be opened, a file whose text is not JSON, or a JSON document. \<open>writable\<close> tells
  whether \<^verbatim>\<open>open(filename, 'w')\<close> succeeds.
\<close>

datatype file_state = Missing | Unreadable | NotJson | Holds json

record DataStorage =
  data :: pyval
  disk :: file_state
  writable :: bool

text \<open>\<^verbatim>\<open>open(self.filename, 'r')\<close> and \<^verbatim>\<open>json.load(file)\<close>.\<close>

fun read_json :: "file_state \<Rightarrow> py_error + json" where
  "read_json Missing = Inl FileNotFoundError"
| "read_json Unreadable = Inl PermissionError"
| "read_json NotJson = Inl JSONDecodeError"
| "read_json (Holds j) = Inr j"

text \<open>\<^verbatim>\<open>_load_data\<close>: only \<^verbatim>\<open>FileNotFoundError\<close> is caught.\<close>

definition load_data :: "file_state \<Rightarrow> py_error + pyval" where
  "load_data f =
     (case read_json f of
        Inl e \<Rightarrow> (if e = FileNotFoundError then Inr (PDict []) else Inl e)
      | Inr j \<Rightarrow> Inr (decode j))"

text \<open>\<^verbatim>\<open>DataStorage.__init__\<close>\<close>

definition init_storage :: "file_state \<Rightarrow> bool \<Rightarrow> py_error + DataStorage" where
  "init_storage f wr =
     (case load_data f of
        Inl e \<Rightarrow> Inl e
      | Inr d \<Rightarrow> Inr \<lparr>data = d, disk = f, writable = wr\<rparr>)"

text \<open>\<^verbatim>\<open>_save_data\<close>: the whole dictionary replaces the file's content.\<close>

definition save_data :: "DataStorage \<Rightarrow> (py_error + unit) \<times> DataStorage" where
  "save_data s =
     (if writable s then (Inr (), s\<lparr>disk := Holds (encode (data s))\<rparr>)
      else (Inl PermissionError, s))"

definition entry :: "string \<Rightarrow> pyval \<Rightarrow> pyval" where
  "entry city weather = PDict [(KStr ''city'', PStr city), (KStr ''weather'', weather)]"

text \<open>
  \<^verbatim>\<open>save_weather_request\<close>. The store is whatever \<^verbatim>\<open>json.load\<close> returned, so the three
  statements are followed on every kind of value: on a dictionary they add the key if it
  is new and append to its list; on a list \<^verbatim>\<open>user_id\<close> is a position; on anything else
  \<^verbatim>\<open>user_id not in self.data\<close> raises. The change made in memory stays when a later
  statement raises.
\<close>

definition save_weather_request ::
  "int \<Rightarrow> string \<Rightarrow> pyval \<Rightarrow> DataStorage \<Rightarrow> (py_error + unit) \<times> DataStorage" where
  "save_weather_request user_id city weather s =
     (case data s of
        PDict kvs \<Rightarrow>
          (let kvs1 = (if map_of kvs (KInt user_id) = None
                       then dict_set kvs (KInt user_id) (PList []) else kvs)
           in case map_of kvs1 (KInt user_id) of
                Some (PList h) \<Rightarrow>
                  save_data
                    (s\<lparr>data := PDict (dict_set kvs1 (KInt user_id)
                                        (PList (h @ [entry city weather])))\<rparr>)
              | _ \<Rightarrow> (Inl AttributeError, s\<lparr>data := PDict kvs1\<rparr>))
      | PList xs \<Rightarrow>
          (case position (length xs) user_id of
             None \<Rightarrow> (Inl IndexError, s)
           | Some j \<Rightarrow>
              (let xs1 = (if \<exists>x \<in> set xs. py_eq_int x user_id then xs
                          else xs[j := PList []])
               in case xs1 ! j of
                    PList h \<Rightarrow>
                      save_data (s\<lparr>data := PList (xs1[j := PList (h @ [entry city weather])])\<rparr>)
                  | _ \<Rightarrow> (Inl AttributeError, s\<lparr>data := PList xs1\<rparr>)))
      | _ \<Rightarrow> (Inl TypeError, s))"

text \<open>\<^verbatim>\<open>get_user_history\<close>: \<^verbatim>\<open>self.data.get(user_id, [])\<close>\<close>

definition get_user_history :: "int \<Rightarrow> DataStorage \<Rightarrow> py_error + pyval" where
  "get_user_history user_id s =
     (case data s of
        PDict kvs \<Rightarrow>
          Inr (case map_of kvs (KInt user_id) of None \<Rightarrow> PList [] | Some v \<Rightarrow> v)
      | _ \<Rightarrow> Inl AttributeError)"

section \<open>The weather provider (business\_logic.py)\<close>

text \<open>
  The provider is outside the program. Of one HTTP call the model keeps which endpoint
  was asked about which city, and what \<^verbatim>\<open>requests.get(...).json()\<close> gave: a decoded
  JSON value, or an exception of the transport or of the decoder.
\<close>

datatype api_call = CurrentWeather string | Forecast string

type_synonym provider = "api_call \<Rightarrow> py_error + pyval"

section \<open>The coordinator (app\_coordinator.py)\<close>

text \<open>
  What a handler can change: the store, the replies sent to the chat (oldest first) and
  the calls made to the provider (oldest first).
\<close>

record bot =
  data_storage :: DataStorage
  sent :: "string list"
  requests :: "api_call list"

text \<open>\<^verbatim>\<open>update.message.reply_text(msg)\<close>\<close>

definition reply_text :: "string \<Rightarrow> bot \<Rightarrow> (py_error + unit) \<times> bot" where
  "reply_text msg b = (Inr (), b\<lparr>sent := sent b @ [msg]\<rparr>)"

definition get_weather_by_city :: "provider \<Rightarrow> string \<Rightarrow> bot \<Rightarrow> (py_error + pyval) \<times> bot" where
  "get_weather_by_city prov city b =
     (prov (CurrentWeather city), b\<lparr>requests := requests b @ [CurrentWeather city]\<rparr>)"

definition get_forecast_by_city :: "provider \<Rightarrow> string \<Rightarrow> bot \<Rightarrow> (py_error + pyval) \<times> bot" where
  "get_forecast_by_city prov city b =
     (prov (Forecast city), b\<lparr>requests := requests b @ [Forecast city]\<rparr>)"

subsection \<open>handle\_history\<close>

definition history_empty_text :: string where
  "history_empty_text = ''Your history is empty!''"

text \<open>The body of the loop: one line of the reply for one stored entry.\<close>

definition history_line :: "pyval \<Rightarrow> py_error + string" where
  "history_line e =
     bind_err (py_getitem_key e ''city'') (\<lambda>city.
     bind_err (py_getitem_key e ''weather'') (\<lambda>weather.
     bind_err (py_get weather ''weather'' (PList [PDict []])) (\<lambda>wl.
     bind_err (py_getitem_int wl 0) (\<lambda>w0.
     bind_err (py_get w0 ''description'' (PStr ''No description'')) (\<lambda>description.
     bind_err (py_get weather ''main'' (PDict [])) (\<lambda>m.
     bind_err (py_get m ''temp'' (PStr ''No temperature data'')) (\<lambda>temp.
     Inr (''City: '' @ py_str city @ '', Description: '' @ py_str description
          @ '', Temp: '' @ py_str temp @ [degree] @ ''C''))))))))"

definition handle_history :: "int \<Rightarrow> bot \<Rightarrow> (py_error + unit) \<times> bot" where
  "handle_history user_id b =
     (case get_user_history user_id (data_storage b) of
        Inl e \<Rightarrow> (Inl e, b)
      | Inr history \<Rightarrow>
          if \<not> py_truthy history then reply_text history_empty_text b
          else (case bind_err (py_iter history) (collect history_line) of
                  Inl e \<Rightarrow> (Inl e, b)
                | Inr messages \<Rightarrow> reply_text (join [newline] messages) b))"

subsection \<open>handle\_message\<close>

definition weather_failed_text :: string where
  "weather_failed_text = ''Failed to get weather data. Please check the city name.''"

text \<open>
  \<^verbatim>\<open>weather['weather'][0]['description']\<close> and \<^verbatim>\<open>weather['main']['temp']\<close>: plain
  subscripts, which raise on a missing key and on an empty list.
\<close>

definition current_fields :: "pyval \<Rightarrow> py_error + pyval \<times> pyval" where
  "current_fields weather =
     bind_err (py_getitem_key weather ''weather'') (\<lambda>wl.
     bind_err (py_getitem_int wl 0) (\<lambda>w0.
     bind_err (py_getitem_key w0 ''description'') (\<lambda>description.
     bind_err (py_getitem_key weather ''main'') (\<lambda>m.
     bind_err (py_getitem_key m ''temp'') (\<lambda>temperature.
     Inr (description, temperature))))))"

text \<open>\<^verbatim>\<open>description.capitalize()\<close>: only a string has the method.\<close>

definition py_capitalize :: "pyval \<Rightarrow> py_error + string" where
  "py_capitalize v = (case v of PStr s \<Rightarrow> Inr (capitalize s) | _ \<Rightarrow> Inl AttributeError)"

definition weather_reply :: "string \<Rightarrow> string \<Rightarrow> pyval \<Rightarrow> string" where
  "weather_reply text description temperature =
     ''Weather in '' @ text @ '':'' @ [newline]
     @ description @ [newline]
     @ ''Temperature: '' @ py_str temperature @ [degree] @ ''C'' @ [newline]"

definition handle_message :: "provider \<Rightarrow> int \<Rightarrow> string \<Rightarrow> bot \<Rightarrow> (py_error + unit) \<times> bot" where
  "handle_message prov user_id text b =
     (case get_weather_by_city prov text b of
        (Inl e, b1) \<Rightarrow> (Inl e, b1)
      | (Inr weather, b1) \<Rightarrow>
          (case py_get weather ''cod'' PNone of
             Inl e \<Rightarrow> (Inl e, b1)
           | Inr cod \<Rightarrow>
               if \<not> py_eq_int cod 200 then reply_text weather_failed_text b1
               else
                 (case current_fields weather of
                    Inl e \<Rightarrow> (Inl e, b1)
                  | Inr (description, temperature) \<Rightarrow>
                      (case save_weather_request user_id text weather (data_storage b1) of
                         (Inl e, s) \<Rightarrow> (Inl e, b1\<lparr>data_storage := s\<rparr>)
                       | (Inr _, s) \<Rightarrow>
                           (case py_capitalize description of
                              Inl e \<Rightarrow> (Inl e, b1\<lparr>data_storage := s\<rparr>)
                            | Inr d \<Rightarrow>
                                reply_text (weather_reply text d temperature)
                                  (b1\<lparr>data_storage := s\<rparr>))))))"

subsection \<open>handle\_forecast\<close>

definition usage_text :: string where
  "usage_text = ''Please provide a city name, e.g., /forecast Moscow''"

definition forecast_failed_text :: string where
  "forecast_failed_text = ''Failed to get forecast data. Please check the city name.''"

definition forecast_header :: "string \<Rightarrow> string" where
  "forecast_header city = ''Weather forecast for '' @ city @ '':''"

text \<open>
  \<^verbatim>\<open>v[:n]\<close>: the first \<open>n\<close> items of a list or a string; any other value raises (a
  dictionary too: a slice is not one of its keys).
\<close>

fun py_take :: "nat \<Rightarrow> pyval \<Rightarrow> py_error + pyval" where
  "py_take n (PList xs) = Inr (PList (take n xs))"
| "py_take n (PStr s) = Inr (PStr (take n s))"
| "py_take n _ = Inl TypeError"

text \<open>
  The body of the loop, for one forecast point: the three values read from it, and the
  line of the reply they give.
\<close>

definition forecast_fields :: "pyval \<Rightarrow> py_error + pyval \<times> pyval \<times> pyval" where
  "forecast_fields forecast =
     bind_err (py_get forecast ''dt_txt'' (PStr ''N/A'')) (\<lambda>dt_txt.
     bind_err (py_getitem_key forecast ''weather'') (\<lambda>wl.
     bind_err (py_getitem_int wl 0) (\<lambda>w0.
     bind_err (py_getitem_key w0 ''description'') (\<lambda>description.
     bind_err (py_getitem_key forecast ''main'') (\<lambda>m.
     bind_err (py_getitem_key m ''temp'') (\<lambda>temperature.
     Inr (dt_txt, description, temperature)))))))"

definition forecast_text :: "pyval \<Rightarrow> string \<Rightarrow> pyval \<Rightarrow> string" where
  "forecast_text dt_txt description temperature =
     py_str dt_txt @ '': '' @ description @ '', Temp: '' @ py_str temperature @ [degree] @ ''C''"

definition forecast_line :: "pyval \<Rightarrow> py_error + string" where
  "forecast_line forecast =
     (case forecast_fields forecast of
        Inl e \<Rightarrow> Inl e
      | Inr (dt_txt, description, temperature) \<Rightarrow>
          (case py_capitalize description of
             Inl e \<Rightarrow> Inl e
           | Inr d \<Rightarrow> Inr (forecast_text dt_txt d temperature)))"

definition handle_forecast :: "provider \<Rightarrow> string \<Rightarrow> bot \<Rightarrow> (py_error + unit) \<times> bot" where
  "handle_forecast prov text b =
     (let command_parts = split_maxsplit1 text
      in if length command_parts < 2 then reply_text usage_text b
         else
           (let city = command_parts ! 1
            in case get_forecast_by_city prov city b of
                 (Inl e, b1) \<Rightarrow> (Inl e, b1)
               | (Inr forecast_data, b1) \<Rightarrow>
                   (case py_get forecast_data ''cod'' PNone of
                      Inl e \<Rightarrow> (Inl e, b1)
                    | Inr cod \<Rightarrow>
                        if \<not> py_eq_str cod ''200'' then reply_text forecast_failed_text b1
                        else
                          (case bind_err (py_get forecast_data ''list'' (PList [])) (\<lambda>forecast_list.
                                bind_err (py_take 5 forecast_list) (\<lambda>first.
                                bind_err (py_iter first) (collect forecast_line))) of
                             Inl e \<Rightarrow> (Inl e, b1)
                           | Inr lines \<Rightarrow>
                               reply_text (join [newline] (forecast_header city # lines)) b1))))"

section \<open>The chat commands (user\_interface.py)\<close>

text \<open>
  The transport delivers an update to the handler registered for it; \<open>/history\<close>,
  \<open>/forecast\<close> and plain text go to the coordinator's handlers, \<open>/start\<close> and \<open>/help\<close>
  answer with fixed text (the greeting holds the user's mention, which the transport
  supplies). An exception leaving a handler ends that handler only: the transport logs it
  and goes on with the next update.
\<close>

datatype update =
    StartCommand int string
  | HelpCommand int
  | HistoryCommand int
  | ForecastCommand int string
  | TextMessage int string

definition start_text :: "string \<Rightarrow> string" where
  "start_text mention =
     ''Hi '' @ mention @ [backslash] @ ''! Welcome to the Weather Bot'' @ [backslash] @ ''.''
     @ [backslash] @ ''n''
     @ ''Send me a city name and I'' @ [CHR 0x27]
     @ ''ll provide you with the current weather information'' @ [backslash] @ ''.'' @ [newline]
     @ ''You can also use /help to see more commands'' @ [backslash] @ ''.''"

definition help_text :: string where
  "help_text =
     ''/start - Start the conversation'' @ [newline]
     @ ''/help - Show this help message'' @ [newline]
     @ ''/history - Show your past weather queries'' @ [newline]
     @ ''/forecast <city> - Get the weather forecast'' @ [newline]
     @ ''Just send a city name to get the weather information for that city'' @ [backslash] @ ''.''"

fun process_update :: "provider \<Rightarrow> update \<Rightarrow> bot \<Rightarrow> (py_error + unit) \<times> bot" where
  "process_update prov (StartCommand user_id mention) b = reply_text (start_text mention) b"
| "process_update prov (HelpCommand user_id) b = reply_text help_text b"
| "process_update prov (HistoryCommand user_id) b = handle_history user_id b"
| "process_update prov (ForecastCommand user_id text) b = handle_forecast prov text b"
| "process_update prov (TextMessage user_id text) b = handle_message prov user_id text b"

text \<open>
  A run of the bot: the updates in order of arrival, each with the provider as it answers
  at that moment.
\<close>

fun run :: "(provider \<times> update) list \<Rightarrow> bot \<Rightarrow> bot" where
  "run [] b = b"
| "run ((prov, u) # us) b = run us (snd (process_update prov u b))"

section \<open>Notions of the specification\<close>

text \<open>
  The store the specification speaks of is a mapping from user identifiers to lists of
  entries: a dictionary in which every \<open>int\<close> key holds a list. \<open>stored d u\<close> is the
  list held for user \<open>u\<close>, empty when there is none.
\<close>

fun user_lists :: "(pykey \<times> pyval) list \<Rightarrow> bool" where
  "user_lists [] = True"
| "user_lists ((KInt u, PList h) # kvs) = user_lists kvs"
| "user_lists ((KInt u, v) # kvs) = False"
| "user_lists ((KStr k, v) # kvs) = user_lists kvs"

definition store_inv :: "pyval \<Rightarrow> bool" where
  "store_inv d = (case d of PDict kvs \<Rightarrow> user_lists kvs | _ \<Rightarrow> False)"

definition dict_lookup :: "pyval \<Rightarrow> pykey \<Rightarrow> pyval option" where
  "dict_lookup d k = (case d of PDict kvs \<Rightarrow> map_of kvs k | _ \<Rightarrow> None)"

definition dict_keys :: "pyval \<Rightarrow> pykey list" where
  "dict_keys d = (case d of PDict kvs \<Rightarrow> map fst kvs | _ \<Rightarrow> [])"

definition stored :: "pyval \<Rightarrow> int \<Rightarrow> pyval list" where
  "stored d u = (case dict_lookup d (KInt u) of Some (PList h) \<Rightarrow> h | _ \<Rightarrow> [])"

text \<open>
  A sequence of calls of \<^verbatim>\<open>save_weather_request\<close>, and the entries it asks to record
  for one user.
\<close>

fun saves :: "(int \<times> string \<times> pyval) list \<Rightarrow> DataStorage \<Rightarrow> DataStorage" where
  "saves [] s = s"
| "saves ((u, city, weather) # calls) s = saves calls (snd (save_weather_request u city weather s))"

fun requests_of :: "int \<Rightarrow> (int \<times> string \<times> pyval) list \<Rightarrow> pyval list" where
  "requests_of u [] = []"
| "requests_of u ((u', city, weather) # calls) =
     (if u' = u then entry city weather # requests_of u calls else requests_of u calls)"

text \<open>A save/reload cycle: \<^verbatim>\<open>_save_data\<close>, then a new \<^verbatim>\<open>DataStorage\<close> on the same file.\<close>

definition reload :: "DataStorage \<Rightarrow> py_error + DataStorage" where
  "reload s =
     (case save_data s of
        (Inl e, s') \<Rightarrow> Inl e
      | (Inr ok, s') \<Rightarrow> init_storage (disk s') (writable s'))"

text \<open>A provider that answers every call with the same decoded document.\<close>

definition always :: "pyval \<Rightarrow> provider" where
  "always v = (\<lambda>call. Inr v)"

text \<open>
  A current-weather lookup succeeds when the provider answers with a dictionary whose
  \<open>cod\<close> equals 200 and from which the handler can read the description and the
  temperature. \<open>recorded u run\<close> lists, in order, the entries of the successful lookups of
  user \<open>u\<close> in a run.
\<close>

definition lookup_succeeded :: "provider \<Rightarrow> string \<Rightarrow> bool" where
  "lookup_succeeded prov text =
     (case prov (CurrentWeather text) of
        Inl e \<Rightarrow> False
      | Inr weather \<Rightarrow>
          (case py_get weather ''cod'' PNone of
             Inl e \<Rightarrow> False
           | Inr cod \<Rightarrow> py_eq_int cod 200 \<and> isl (current_fields weather) = False))"

fun succeeded :: "provider \<Rightarrow> update \<Rightarrow> bool" where
  "succeeded prov (TextMessage user_id text) = lookup_succeeded prov text"
| "succeeded prov _ = False"

fun recorded :: "int \<Rightarrow> (provider \<times> update) list \<Rightarrow> pyval list" where
  "recorded u [] = []"
| "recorded u ((prov, TextMessage user_id text) # us) =
     (if user_id = u \<and> lookup_succeeded prov text
      then entry text (projr (prov (CurrentWeather text))) # recorded u us
      else recorded u us)"
| "recorded u ((prov, _) # us) = recorded u us"

text \<open>
  The capitalisation the specification words: the first letter in upper case, every other
  character as it is.
\<close>

fun capitalize_first_only :: "string \<Rightarrow> string" where
  "capitalize_first_only [] = []"
| "capitalize_first_only (c # cs) = to_title c @ cs"


text \<open>
  A value as \<^verbatim>\<open>json.load\<close> returns it: every dictionary in it has string keys, each
  once.
\<close>

primrec json_like :: "pyval \<Rightarrow> bool" where
  "json_like PNone = True"
| "json_like (PBool b) = True"
| "json_like (PInt i) = True"
| "json_like (PFloat r) = True"
| "json_like (PStr s) = True"
| "json_like (PList xs) = list_all (\<lambda>b. b) (map json_like xs)"
| "json_like (PDict kvs) =
     (distinct (map fst kvs)
      \<and> list_all (\<lambda>(k, b). (case k of KStr s \<Rightarrow> True | KInt i \<Rightarrow> False) \<and> b)
           (map (map_prod id json_like) kvs))"

text \<open>\<^verbatim>\<open>response.get("cod")\<close> on a dictionary.\<close>

definition cod_field :: "(pykey \<times> pyval) list \<Rightarrow> pyval" where
  "cod_field kvs = (case map_of kvs (KStr ''cod'') of None \<Rightarrow> PNone | Some v \<Rightarrow> v)"









subsection \<open>Example data\<close>

text \<open>The Paris scenario: the provider's answer, and a bot started without a backing file.\<close>

definition paris :: pyval where
  "paris = PDict [(KStr ''cod'', PInt 200),
     (KStr ''weather'', PList [PDict [(KStr ''description'', PStr ''clear sky'')]]),
     (KStr ''main'', PDict [(KStr ''temp'', PFloat ''18.5'')])]"

definition empty_storage :: DataStorage where
  "empty_storage = \<lparr>data = PDict [], disk = Missing, writable = True\<rparr>"

definition new_bot :: bot where
  "new_bot = \<lparr>data_storage = empty_storage, sent = [], requests = []\<rparr>"

text \<open>The store after the Paris scenario: user 7 has one entry.\<close>

definition paris_storage :: DataStorage where
  "paris_storage =
     \<lparr>data = PDict [(KInt 7, PList [entry ''Paris'' paris])], disk = Missing, writable = True\<rparr>"


definition only_cod :: pyval where
  "only_cod = PDict [(KStr ''cod'', PInt 200)]"

definition not_found :: pyval where
  "not_found = PDict [(KStr ''cod'', PStr ''404''), (KStr ''message'', PStr ''city not found'')]"

definition shouting :: pyval where
  "shouting = PDict [(KStr ''cod'', PInt 200),
     (KStr ''weather'', PList [PDict [(KStr ''description'', PStr ''clear SKY'')]]),
     (KStr ''main'', PDict [(KStr ''temp'', PFloat ''18.5'')])]"

text \<open>Forecast points: a complete one, and one without a temperature.\<close>

definition point :: "string \<Rightarrow> pyval" where
  "point dt = PDict [(KStr ''dt_txt'', PStr dt),
     (KStr ''weather'', PList [PDict [(KStr ''description'', PStr ''light rain'')]]),
     (KStr ''main'', PDict [(KStr ''temp'', PInt 7)])]"

definition point_without_temp :: pyval where
  "point_without_temp = PDict [
     (KStr ''weather'', PList [PDict [(KStr ''description'', PStr ''light rain'')]]),
     (KStr ''main'', PDict [])]"

definition forecast_of :: "pyval list \<Rightarrow> pyval" where
  "forecast_of points = PDict [(KStr ''cod'', PStr ''200''), (KStr ''list'', PList points)]"

text \<open>
  Two providers: one answers each endpoint with the status code of the other endpoint's
  type, one answers the current-weather call with the Paris document and the forecast
  call with seven points, the last two of them unusable.
\<close>

fun swapped_codes :: provider where
  "swapped_codes (CurrentWeather city) = Inr (PDict [(KStr ''cod'', PStr ''200'')])"
| "swapped_codes (Forecast city) = Inr (PDict [(KStr ''cod'', PInt 200)])"

definition seven_points :: "pyval list" where
  "seven_points = [point ''d1'', point ''d2'', point ''d3'', point ''d4'', point ''d5'',
                   point_without_temp, PNone]"

fun usual_codes :: provider where
  "usual_codes (CurrentWeather city) = Inr paris"
| "usual_codes (Forecast city) = Inr (forecast_of seven_points)"



section \<open>Properties\<close>

subsection \<open>Dictionaries\<close>

lemma bind_err_simps [simp]:
  "bind_err (Inl e) f = Inl e" "bind_err (Inr x) f = f x"
  by (simp_all add: bind_err_def)

lemma map_of_dict_set: "map_of (dict_set kvs k v) = (map_of kvs)(k \<mapsto> v)"
  by (induction kvs k v rule: dict_set.induct) auto

lemma dict_set_new: "map_of kvs k = None \<Longrightarrow> dict_set kvs k v = kvs @ [(k, v)]"
  by (induction kvs k v rule: dict_set.induct) (auto split: if_splits)

lemma keys_dict_set_old: "map_of kvs k = Some v' \<Longrightarrow> map fst (dict_set kvs k v) = map fst kvs"
  by (induction kvs k v rule: dict_set.induct) (auto split: if_splits)

lemma dict_set_twice: "dict_set (dict_set kvs k v) k v' = dict_set kvs k v'"
  by (induction kvs k v rule: dict_set.induct) auto

lemma user_lists_lookup:
  "user_lists kvs \<Longrightarrow> map_of kvs (KInt u) = Some v \<Longrightarrow> \<exists>h. v = PList h"
  by (induction kvs rule: user_lists.induct) (auto split: if_splits)

lemma user_lists_dict_set:
  "user_lists kvs \<Longrightarrow> user_lists (dict_set kvs (KInt u) (PList h))"
  by (induction kvs rule: user_lists.induct) auto

lemma user_lists_dict_set_str:
  "user_lists kvs \<Longrightarrow> user_lists (dict_set kvs (KStr k) v)"
  by (induction kvs rule: user_lists.induct) auto

lemma dict_of_members_inv:
  "user_lists (dict_of_members ms) \<and> map_of (dict_of_members ms) (KInt u) = None"
proof -
  have "user_lists acc \<and> map_of acc (KInt u) = None \<Longrightarrow>
        user_lists (foldl (\<lambda>d (k, v). dict_set d (KStr k) v) acc ms) \<and>
        map_of (foldl (\<lambda>d (k, v). dict_set d (KStr k) v) acc ms) (KInt u) = None" for acc
    by (induction ms arbitrary: acc)
       (auto simp: user_lists_dict_set_str map_of_dict_set)
  from this [of "[]"] show ?thesis by (simp add: dict_of_members_def)
qed

subsection \<open>The store\<close>

lemma save_weather_request_data:
  assumes "data s = PDict kvs"
    and "map_of kvs (KInt u) = None \<and> h = [] \<or> map_of kvs (KInt u) = Some (PList h)"
  shows "data (snd (save_weather_request u city weather s)) =
           PDict (dict_set kvs (KInt u) (PList (h @ [entry city weather])))"
  using assms
  by (auto simp: save_weather_request_def save_data_def map_of_dict_set dict_set_twice Let_def)

lemma store_inv_cases:
  assumes "store_inv d"
  obtains kvs where "d = PDict kvs" and "user_lists kvs"
    and "map_of kvs (KInt u) = None \<and> stored d u = [] \<or>
         map_of kvs (KInt u) = Some (PList (stored d u))"
proof -
  from assms obtain kvs where d: "d = PDict kvs" and l: "user_lists kvs"
    by (cases d) (auto simp: store_inv_def)
  have "map_of kvs (KInt u) = None \<and> stored d u = [] \<or>
        map_of kvs (KInt u) = Some (PList (stored d u))"
  proof (cases "map_of kvs (KInt u)")
    case None
    then show ?thesis by (simp add: stored_def dict_lookup_def d)
  next
    case (Some v)
    with user_lists_lookup [OF l Some] show ?thesis
      by (auto simp: stored_def dict_lookup_def d)
  qed
  with d l show thesis by (rule that)
qed

lemma store_inv_save:
  assumes "store_inv (data s)"
  shows "store_inv (data (snd (save_weather_request u city weather s)))"
    and "stored (data (snd (save_weather_request u city weather s))) u' =
          (if u' = u then stored (data s) u @ [entry city weather] else stored (data s) u')"
proof -
  from assms obtain kvs where d: "data s = PDict kvs" and l: "user_lists kvs"
    and c: "map_of kvs (KInt u) = None \<and> stored (data s) u = [] \<or>
            map_of kvs (KInt u) = Some (PList (stored (data s) u))"
    by (rule store_inv_cases)
  note r = save_weather_request_data [OF d c, of city weather]
  show "store_inv (data (snd (save_weather_request u city weather s)))"
    unfolding r using l by (simp add: store_inv_def user_lists_dict_set)
  show "stored (data (snd (save_weather_request u city weather s))) u' =
          (if u' = u then stored (data s) u @ [entry city weather] else stored (data s) u')"
    unfolding r by (simp add: stored_def dict_lookup_def d map_of_dict_set)
qed

lemma get_user_history_stored:
  assumes "store_inv (data s)"
  shows "get_user_history u s = Inr (PList (stored (data s) u))"
proof -
  from assms obtain kvs where d: "data s = PDict kvs"
    and c: "map_of kvs (KInt u) = None \<and> stored (data s) u = [] \<or>
            map_of kvs (KInt u) = Some (PList (stored (data s) u))"
    by (rule store_inv_cases)
  from c show ?thesis by (auto simp: get_user_history_def d)
qed

lemma saves_stored:
  "store_inv (data s) \<Longrightarrow>
   store_inv (data (saves calls s)) \<and>
   stored (data (saves calls s)) u = stored (data s) u @ requests_of u calls"
proof (induction calls arbitrary: s)
  case Nil
  then show ?case by simp
next
  case (Cons c calls)
  obtain u' city weather where c: "c = (u', city, weather)" by (cases c)
  from Cons.prems Cons.IH [of "snd (save_weather_request u' city weather s)"]
  show ?case by (simp add: c store_inv_save)
qed

lemma init_storage_inv:
  assumes "init_storage f wr = Inr s" and "data s = PDict kvs"
  shows "store_inv (data s) \<and> stored (data s) u = []"
proof (cases f)
  case (Holds j)
  with assms have dj: "decode j = PDict kvs"
    by (auto simp: init_storage_def load_data_def)
  then obtain ms where "kvs = dict_of_members ms"
    by (cases j) auto
  with dict_of_members_inv [of ms u] show ?thesis
    by (simp add: assms(2) store_inv_def stored_def dict_lookup_def)
qed (use assms in \<open>auto simp: init_storage_def load_data_def store_inv_def stored_def dict_lookup_def\<close>)

subsection \<open>Evaluated examples\<close>

lemma str_int_200: "str_int 200 = ''200''"
  by code_simp

lemma str_int_7: "str_int 7 = ''7''"
  by code_simp

lemma split_forecast_paris: "split_maxsplit1 ''/forecast Paris'' = [''/forecast'', ''Paris'']"
  by (simp add: split_maxsplit1_def isspace_def)

subsection \<open>Claims about the store\<close>

text \<open>
  C6. A store built by \<^verbatim>\<open>DataStorage()\<close> as a dictionary, then changed by any sequence of
  \<^verbatim>\<open>save_weather_request\<close> calls: \<^verbatim>\<open>get_user_history\<close> never raises and returns, for
  every user identifier, exactly the entries saved for that user, in the order of the
  calls; for a user never passed to \<^verbatim>\<open>save_weather_request\<close> that is the empty list.
\<close>

theorem get_user_history_returns_saved_requests:
  assumes "init_storage f wr = Inr s0" and "data s0 = PDict kvs0"
  shows "get_user_history u (saves calls s0) = Inr (PList (requests_of u calls))"
proof -
  from init_storage_inv [OF assms, of u]
  have i: "store_inv (data s0)" and e: "stored (data s0) u = []" by simp_all
  from saves_stored [OF i, of calls u] e
  show ?thesis by (simp add: get_user_history_stored)
qed

theorem get_user_history_returns_saved_requests_witness:
  "init_storage (Holds (JObject [(''7'', JArray [])])) True
     = Inr \<lparr>data = PDict [(KStr ''7'', PList [])], disk = Holds (JObject [(''7'', JArray [])]), writable = True\<rparr>
   \<and> get_user_history 7
        (saves [(7, ''Paris'', paris), (8, ''Oslo'', PNone), (7, ''Rome'', PNone)]
           \<lparr>data = PDict [(KStr ''7'', PList [])], disk = Holds (JObject [(''7'', JArray [])]), writable = True\<rparr>)
      = Inr (PList [entry ''Paris'' paris, entry ''Rome'' PNone])
   \<and> get_user_history 9
        (saves [(7, ''Paris'', paris), (8, ''Oslo'', PNone), (7, ''Rome'', PNone)]
           \<lparr>data = PDict [(KStr ''7'', PList [])], disk = Holds (JObject [(''7'', JArray [])]), writable = True\<rparr>)
      = Inr (PList [])"
  using get_user_history_returns_saved_requests
    [of "Holds (JObject [(''7'', JArray [])])" True
        "\<lparr>data = PDict [(KStr ''7'', PList [])], disk = Holds (JObject [(''7'', JArray [])]), writable = True\<rparr>"
        "[(KStr ''7'', PList [])]" _ "[(7, ''Paris'', paris), (8, ''Oslo'', PNone), (7, ''Rome'', PNone)]"]
  by (simp add: init_storage_def load_data_def dict_of_members_def)

text \<open>
  C10. On a store that is a dictionary in which user \<open>u\<close> has no key or a list \<open>h\<close>,
  \<^verbatim>\<open>save_weather_request(u, city, weather)\<close> leaves \<open>u\<close> with \<open>h\<close> followed by the one
  new entry, leaves the value of every other key as it was, and keeps the keys in their
  order (a new user's key goes last).
\<close>

theorem save_weather_request_appends_only:
  assumes "data s = PDict kvs"
    and "map_of kvs (KInt u) = None \<and> h = [] \<or> map_of kvs (KInt u) = Some (PList h)"
  shows "dict_lookup (data (snd (save_weather_request u city weather s))) (KInt u)
           = Some (PList (h @ [entry city weather]))
       \<and> (\<forall>k. k \<noteq> KInt u \<longrightarrow>
            dict_lookup (data (snd (save_weather_request u city weather s))) k
              = dict_lookup (data s) k)
       \<and> dict_keys (data (snd (save_weather_request u city weather s)))
           = (if map_of kvs (KInt u) = None then map fst kvs @ [KInt u] else map fst kvs)"
proof -
  note r = save_weather_request_data [OF assms, of city weather]
  from assms(2) show ?thesis
    unfolding r
    by (auto simp: dict_lookup_def dict_keys_def assms(1) map_of_dict_set dict_set_new
        keys_dict_set_old)
qed

theorem save_weather_request_appends_only_witness:
  "data \<lparr>data = PDict [(KStr ''7'', PList []), (KInt 7, PList [entry ''Oslo'' PNone])],
          disk = Missing, writable = True\<rparr>
     = PDict [(KStr ''7'', PList []), (KInt 7, PList [entry ''Oslo'' PNone])]
   \<and> map_of [(KStr ''7'', PList []), (KInt 7, PList [entry ''Oslo'' PNone])] (KInt 7)
       = Some (PList [entry ''Oslo'' PNone])
   \<and> dict_lookup (data (snd (save_weather_request 7 ''Paris'' paris
         \<lparr>data = PDict [(KStr ''7'', PList []), (KInt 7, PList [entry ''Oslo'' PNone])],
          disk = Missing, writable = True\<rparr>))) (KInt 7)
       = Some (PList [entry ''Oslo'' PNone, entry ''Paris'' paris])
   \<and> dict_lookup (data (snd (save_weather_request 7 ''Paris'' paris
         \<lparr>data = PDict [(KStr ''7'', PList []), (KInt 7, PList [entry ''Oslo'' PNone])],
          disk = Missing, writable = True\<rparr>))) (KStr ''7'')
       = Some (PList [])
   \<and> dict_keys (data (snd (save_weather_request 7 ''Paris'' paris
         \<lparr>data = PDict [(KStr ''7'', PList []), (KInt 7, PList [entry ''Oslo'' PNone])],
          disk = Missing, writable = True\<rparr>)))
       = [KStr ''7'', KInt 7]
   \<and> map_of [(KStr ''7'', PList []), (KInt 7, PList [entry ''Oslo'' PNone])] (KInt 8) = None
   \<and> dict_lookup (data (snd (save_weather_request 8 ''Rome'' paris
         \<lparr>data = PDict [(KStr ''7'', PList []), (KInt 7, PList [entry ''Oslo'' PNone])],
          disk = Missing, writable = True\<rparr>))) (KInt 8)
       = Some (PList [entry ''Rome'' paris])
   \<and> dict_lookup (data (snd (save_weather_request 8 ''Rome'' paris
         \<lparr>data = PDict [(KStr ''7'', PList []), (KInt 7, PList [entry ''Oslo'' PNone])],
          disk = Missing, writable = True\<rparr>))) (KInt 7)
       = Some (PList [entry ''Oslo'' PNone])
   \<and> dict_keys (data (snd (save_weather_request 8 ''Rome'' paris
         \<lparr>data = PDict [(KStr ''7'', PList []), (KInt 7, PList [entry ''Oslo'' PNone])],
          disk = Missing, writable = True\<rparr>)))
       = [KStr ''7'', KInt 7, KInt 8]"
  using save_weather_request_appends_only
    [of "\<lparr>data = PDict [(KStr ''7'', PList []), (KInt 7, PList [entry ''Oslo'' PNone])],
          disk = Missing, writable = True\<rparr>"
        "[(KStr ''7'', PList []), (KInt 7, PList [entry ''Oslo'' PNone])]"
        7 "[entry ''Oslo'' PNone]" "''Paris''" paris]
    save_weather_request_appends_only
    [of "\<lparr>data = PDict [(KStr ''7'', PList []), (KInt 7, PList [entry ''Oslo'' PNone])],
          disk = Missing, writable = True\<rparr>"
        "[(KStr ''7'', PList []), (KInt 7, PList [entry ''Oslo'' PNone])]"
        8 "[]" "''Rome''" paris]
  by (simp add: dict_lookup_def)

text \<open>
  C8, as claimed, fails: a backing file that exists but cannot be opened, or whose text is
  not JSON, makes \<^verbatim>\<open>_load_data\<close> raise, and with it the construction of the store.
\<close>

theorem load_data_unreadable_counterexample:
  "read_json Unreadable = Inl PermissionError
   \<and> load_data Unreadable = Inl PermissionError
   \<and> init_storage Unreadable True = Inl PermissionError
   \<and> read_json NotJson = Inl JSONDecodeError
   \<and> load_data NotJson = Inl JSONDecodeError
   \<and> init_storage NotJson True = Inl JSONDecodeError"
  by (simp add: load_data_def init_storage_def)

text \<open>
  C8, amended. When reading the backing file raises, the store starts empty exactly if
  the exception is \<^verbatim>\<open>FileNotFoundError\<close> (the file does not exist), and every user's
  history is then empty; any other exception leaves \<^verbatim>\<open>DataStorage()\<close> unconstructed.
\<close>

theorem load_data_missing_file:
  assumes "read_json f = Inl e"
  shows "(e = FileNotFoundError \<longrightarrow>
            init_storage f wr = Inr \<lparr>data = PDict [], disk = f, writable = wr\<rparr>
            \<and> (\<forall>u. get_user_history u \<lparr>data = PDict [], disk = f, writable = wr\<rparr> = Inr (PList [])))
       \<and> (e \<noteq> FileNotFoundError \<longrightarrow> init_storage f wr = Inl e)"
  using assms by (simp add: load_data_def init_storage_def get_user_history_def)

theorem load_data_missing_file_witness:
  "read_json Missing = Inl FileNotFoundError
   \<and> init_storage Missing True = Inr \<lparr>data = PDict [], disk = Missing, writable = True\<rparr>
   \<and> get_user_history 7 \<lparr>data = PDict [], disk = Missing, writable = True\<rparr> = Inr (PList [])
   \<and> read_json NotJson = Inl JSONDecodeError
   \<and> init_storage NotJson True = Inl JSONDecodeError"
  using load_data_missing_file [of Missing FileNotFoundError True]
    load_data_missing_file [of NotJson JSONDecodeError True]
  by simp

text \<open>
  C2. The round trip fails on the stores the program builds: \<^verbatim>\<open>save_weather_request\<close>
  files a history under the \<open>int\<close> user id, \<^verbatim>\<open>json.dump\<close> writes that key as a string,
  and \<^verbatim>\<open>json.load\<close> returns it as a string. After a save/reload cycle the entry is still
  in the document, under \<open>'7'\<close>, and \<^verbatim>\<open>get_user_history(7)\<close> is empty.
\<close>

theorem reload_loses_history:
  "get_user_history 7 paris_storage = Inr (PList [entry ''Paris'' paris])
   \<and> bind_err (reload paris_storage) (\<lambda>s. Inr (data s))
       = Inr (PDict [(KStr ''7'', PList [entry ''Paris'' paris])])
   \<and> bind_err (reload paris_storage) (get_user_history 7) = Inr (PList [])"
  by code_simp

text \<open>
  The defect is the key alone. A store whose dictionaries all have string keys comes back
  from a save/reload cycle as it was; and once a reloaded store is saved to again, the
  user's new \<open>int\<close> key and the old string key are both written, as two members of one
  name; the next \<^verbatim>\<open>json.load\<close> keeps the last of the two, and the entries saved
  before the restart are lost with that load.
\<close>

lemma foldl_dict_set_fresh:
  "distinct (map fst acc @ map (\<lambda>m. KStr (fst m)) ms) \<Longrightarrow>
   foldl (\<lambda>d (k, v). dict_set d (KStr k) v) acc ms = acc @ map (\<lambda>(k, v). (KStr k, v)) ms"
proof (induction ms arbitrary: acc)
  case Nil
  then show ?case by simp
next
  case (Cons m ms)
  obtain k v where m: "m = (k, v)" by (cases m)
  from Cons.prems have "KStr k \<notin> fst ` set acc" by (auto simp: m)
  then have n: "map_of acc (KStr k) = None" by (simp add: map_of_eq_None_iff)
  from Cons.prems have "distinct (map fst (acc @ [(KStr k, v)]) @ map (\<lambda>m. KStr (fst m)) ms)"
    by (auto simp: m)
  from Cons.IH [OF this] show ?case
    by (simp add: m dict_set_new [OF n])
qed

lemma decode_encode: "json_like v \<Longrightarrow> decode (encode v) = v"
proof (induction v)
  case (PList xs)
  then show ?case by (simp add: list_all_iff map_idI)
next
  case (PDict kvs)
  from PDict.prems have d: "distinct (map fst kvs)"
    and s: "\<forall>(k, v) \<in> set kvs. (\<exists>s. k = KStr s) \<and> json_like v"
    by (auto simp: list_all_iff split: pykey.splits)
  have e: "map (map_prod id decode) (map (map_prod key_text id) (map (map_prod id encode) kvs))
             = map (\<lambda>(k, v). (key_text k, v)) kvs"
    using PDict.IH s by (auto simp: map_prod_def split: prod.splits)
  have k: "map (\<lambda>(k, v). (KStr k, v)) (map (\<lambda>(k, v). (key_text k, v)) kvs) = kvs"
    using s by (auto simp: key_text_def intro!: map_idI)
  have "map (\<lambda>m. KStr (fst m)) (map (\<lambda>(k, v). (key_text k, v)) kvs) = map fst kvs"
    using s by (auto simp: key_text_def)
  with d have "distinct (map fst [] @ map (\<lambda>m. KStr (fst m)) (map (\<lambda>(k, v). (key_text k, v)) kvs))"
    by (simp del: map_map)
  from foldl_dict_set_fresh [OF this] show ?case
    by (simp add: dict_of_members_def e k del: map_map)
qed simp_all

lemma reload_string_keys:
  "json_like (data s) \<Longrightarrow> writable s \<Longrightarrow>
   reload s = Inr (s\<lparr>disk := Holds (encode (data s))\<rparr>)"
  by (simp add: reload_def save_data_def init_storage_def load_data_def decode_encode)

lemma second_save_drops_first:
  "bind_err (reload paris_storage) (\<lambda>s.
     bind_err (reload (snd (save_weather_request 7 ''Rome'' paris s))) (\<lambda>s'. Inr (data s')))
   = Inr (PDict [(KStr ''7'', PList [entry ''Rome'' paris])])"
  by code_simp

subsection \<open>Splitting the command text\<close>

lemma split_maxsplit1_one_word:
  assumes "\<forall>c \<in> set lead. isspace c" and "\<forall>c \<in> set word. \<not> isspace c"
    and "\<forall>c \<in> set trail. isspace c"
  shows "split_maxsplit1 (lead @ word @ trail) = (if word = [] then [] else [word])"
proof (cases word)
  case Nil
  with assms have "dropWhile isspace (lead @ word @ trail) = []" by simp
  with Nil show ?thesis by (simp add: split_maxsplit1_def)
next
  case (Cons c cs)
  with assms(2) have c: "\<not> isspace c" by simp
  from assms(1) have s1: "dropWhile isspace (lead @ word @ trail) = word @ trail"
    using c by (simp add: Cons)
  from assms(3) have t: "takeWhile (\<lambda>c. \<not> isspace c) trail = []"
    by (cases trail) auto
  from assms(3) have d: "dropWhile (\<lambda>c. \<not> isspace c) trail = trail"
    by (cases trail) auto
  have w: "takeWhile (\<lambda>c. \<not> isspace c) (word @ trail) = word"
    using assms(2) t by (simp add: takeWhile_append2)
  have r: "dropWhile (\<lambda>c. \<not> isspace c) (word @ trail) = trail"
    using assms(2) d by (simp add: dropWhile_append2)
  from assms(3) have e: "dropWhile isspace trail = []" by simp
  show ?thesis
    unfolding split_maxsplit1_def s1 Let_def w r e by (simp add: Cons)
qed

lemma join_Cons: "\<exists>r. join sep (x # ys) = x @ r"
  by (cases ys) auto

subsection \<open>What the handlers do to the store\<close>

lemma handle_history_storage: "data_storage (snd (handle_history u b)) = data_storage b"
  by (simp add: handle_history_def reply_text_def split: sum.splits)

lemma handle_forecast_storage: "data_storage (snd (handle_forecast prov text b)) = data_storage b"
  by (simp add: handle_forecast_def get_forecast_by_city_def reply_text_def Let_def
      split: sum.splits prod.splits)

lemma handle_message_storage:
  "data_storage (snd (handle_message prov u text b)) =
     (if lookup_succeeded prov text
      then snd (save_weather_request u text (projr (prov (CurrentWeather text))) (data_storage b))
      else data_storage b)"
  by (auto simp: handle_message_def get_weather_by_city_def reply_text_def lookup_succeeded_def
      split: sum.splits prod.splits)

lemma process_update_storage:
  "data_storage (snd (process_update prov upd b)) =
     (case upd of
        TextMessage u text \<Rightarrow>
          (if lookup_succeeded prov text
           then snd (save_weather_request u text (projr (prov (CurrentWeather text)))
                  (data_storage b))
           else data_storage b)
      | _ \<Rightarrow> data_storage b)"
  by (cases upd)
     (simp_all add: handle_history_storage handle_forecast_storage handle_message_storage
        reply_text_def)

lemma run_unchanged:
  "\<forall>(prov, upd) \<in> set us. \<not> succeeded prov upd \<Longrightarrow> data_storage (run us b) = data_storage b"
proof (induction us arbitrary: b)
  case Nil
  then show ?case by simp
next
  case (Cons p us)
  obtain prov upd where p: "p = (prov, upd)" by (cases p)
  from Cons.prems have n: "\<not> succeeded prov upd" by (simp add: p)
  then have "data_storage (snd (process_update prov upd b)) = data_storage b"
    using process_update_storage [of prov upd b] by (cases upd) simp_all
  with Cons show ?case by (simp add: p)
qed

lemma run_stored:
  "store_inv (data (data_storage b)) \<Longrightarrow>
   store_inv (data (data_storage (run us b))) \<and>
   stored (data (data_storage (run us b))) u = stored (data (data_storage b)) u @ recorded u us"
proof (induction us arbitrary: b)
  case Nil
  then show ?case by simp
next
  case (Cons p us)
  obtain prov upd where p: "p = (prov, upd)" by (cases p)
  let ?b = "snd (process_update prov upd b)"
  have "store_inv (data (data_storage ?b)) \<and>
        stored (data (data_storage ?b)) u = stored (data (data_storage b)) u @ recorded u [p]"
    using Cons.prems process_update_storage [of prov upd b]
    by (cases upd) (simp_all add: p store_inv_save)
  moreover have "recorded u (p # us) = recorded u [p] @ recorded u us"
    by (cases upd) (simp_all add: p)
  ultimately show ?case using Cons.IH [of ?b] by (simp add: p)
qed

subsection \<open>Claims about the coordinator\<close>

text \<open>
  C1, as claimed, fails: a response with status code 200 does not always append an entry.
  When the payload lacks the fields the handler reads before it saves, the handler is
  left by the exception and the history stays as it was.
\<close>

theorem status_200_without_entry_counterexample:
  "py_get only_cod ''cod'' PNone = Inr (PInt 200)
   \<and> handle_message (always only_cod) 7 ''Paris'' new_bot
       = (Inl KeyError, new_bot\<lparr>requests := [CurrentWeather ''Paris'']\<rparr>)
   \<and> get_user_history 7 (data_storage (snd (handle_message (always only_cod) 7 ''Paris'' new_bot)))
       = Inr (PList [])"
  by (simp add: only_cod_def handle_message_def get_weather_by_city_def always_def new_bot_def
      current_fields_def get_user_history_def empty_storage_def)

text \<open>
  C1, amended. On a store that maps users to lists, after any run of updates the history
  of a user is what it was before, followed by one entry \<open>{city, weather}\<close> for each of
  the user's current-weather requests that succeeded (status code 200 and the description
  and temperature present), in order of arrival, and by nothing else: requests with
  another status code, requests left by an exception, forecast and history commands
  append nothing. A run without a successful request leaves the whole store, in memory
  and on disk, unchanged.
\<close>

theorem history_holds_successful_lookups:
  assumes "store_inv (data (data_storage b))"
  shows "get_user_history u (data_storage (run us b))
           = Inr (PList (stored (data (data_storage b)) u @ recorded u us))
       \<and> ((\<forall>(prov, upd) \<in> set us. \<not> succeeded prov upd)
            \<longrightarrow> data_storage (run us b) = data_storage b)"
  using run_stored [OF assms, of us u] run_unchanged [of us b]
  by (simp add: get_user_history_stored)

lemma lookup_paris: "lookup_succeeded (always paris) text"
  by (simp add: lookup_succeeded_def always_def paris_def current_fields_def str_int_200 position_def)

lemma lookup_not_found: "\<not> lookup_succeeded (always not_found) text"
  by (simp add: lookup_succeeded_def always_def not_found_def)

lemma lookup_only_cod: "\<not> lookup_succeeded (always only_cod) text"
  by (simp add: lookup_succeeded_def always_def only_cod_def current_fields_def)

theorem history_holds_successful_lookups_witness:
  "store_inv (data (data_storage new_bot))
   \<and> get_user_history 7 (data_storage (run
        [(always paris, TextMessage 7 ''Paris''),
         (always not_found, TextMessage 7 ''Atlantis''),
         (always only_cod, TextMessage 7 ''Oslo''),
         (always paris, ForecastCommand 7 ''/forecast Paris''),
         (always paris, HistoryCommand 7),
         (always paris, TextMessage 8 ''Rome'')] new_bot))
       = Inr (PList [entry ''Paris'' paris])
   \<and> data_storage (run
        [(always not_found, TextMessage 7 ''Atlantis''),
         (always only_cod, TextMessage 7 ''Oslo''),
         (always paris, ForecastCommand 7 ''/forecast Paris''),
         (always paris, HistoryCommand 7)] new_bot)
       = data_storage new_bot"
proof -
  have i: "store_inv (data (data_storage new_bot))"
    by (simp add: new_bot_def empty_storage_def store_inv_def)
  have s: "stored (data (data_storage new_bot)) 7 = []"
    by (simp add: new_bot_def empty_storage_def stored_def dict_lookup_def)
  have p: "projr (always paris (CurrentWeather ''Paris'')) = paris"
    by (simp add: always_def)
  from history_holds_successful_lookups [OF i, of 7
        "[(always paris, TextMessage 7 ''Paris''),
         (always not_found, TextMessage 7 ''Atlantis''),
         (always only_cod, TextMessage 7 ''Oslo''),
         (always paris, ForecastCommand 7 ''/forecast Paris''),
         (always paris, HistoryCommand 7),
         (always paris, TextMessage 8 ''Rome'')]"]
    history_holds_successful_lookups [OF i, of 7
        "[(always not_found, TextMessage 7 ''Atlantis''),
         (always only_cod, TextMessage 7 ''Oslo''),
         (always paris, ForecastCommand 7 ''/forecast Paris''),
         (always paris, HistoryCommand 7)]"]
  show ?thesis
    by (simp add: i s p lookup_paris lookup_not_found lookup_only_cod)
qed

text \<open>
  C5. A forecast command whose text is one word (the command) with any whitespace around
  it, or no word at all: the handler sends the usage hint and does nothing else. The
  provider is not called and the store is not touched.
\<close>

theorem handle_forecast_without_city:
  assumes "\<forall>c \<in> set lead. isspace c" and "\<forall>c \<in> set word. \<not> isspace c"
    and "\<forall>c \<in> set trail. isspace c"
  shows "handle_forecast prov (lead @ word @ trail) b = (Inr (), b\<lparr>sent := sent b @ [usage_text]\<rparr>)"
  using split_maxsplit1_one_word [OF assms]
  by (simp add: handle_forecast_def reply_text_def)

theorem handle_forecast_without_city_witness:
  "handle_forecast (always paris) ''/forecast  '' new_bot
     = (Inr (), new_bot\<lparr>sent := [usage_text]\<rparr>)
   \<and> requests (snd (handle_forecast (always paris) ''/forecast  '' new_bot)) = []
   \<and> data_storage (snd (handle_forecast (always paris) ''/forecast  '' new_bot)) = empty_storage"
proof -
  have l: "\<forall>c \<in> set ''''. isspace c" by simp
  have w: "\<forall>c \<in> set ''/forecast''. \<not> isspace c" by (simp add: isspace_def)
  have t: "\<forall>c \<in> set ''  ''. isspace c" by (simp add: isspace_def)
  from handle_forecast_without_city [OF l w t, of "always paris" new_bot]
  show ?thesis by (simp add: new_bot_def)
qed

subsection \<open>The status code\<close>

lemma py_eq_int_200: "py_eq_int v 200 \<longleftrightarrow> v = PInt 200 \<or> v = PFloat ''200.0''"
  by (cases v) (simp_all add: str_int_200)

lemma py_eq_str_iff: "py_eq_str v s \<longleftrightarrow> v = PStr s"
  by (cases v) auto

lemma weather_reply_not_failed: "weather_reply text d t \<noteq> weather_failed_text"
  by (simp add: weather_reply_def weather_failed_text_def)

lemma forecast_reply_not_failed:
  "join [newline] (forecast_header city # lines) \<noteq> forecast_failed_text"
proof -
  obtain r where "join [newline] (forecast_header city # lines) = forecast_header city @ r"
    using join_Cons by blast
  then show ?thesis by (simp add: forecast_header_def forecast_failed_text_def)
qed

lemma handle_message_failed:
  assumes "prov (CurrentWeather text) = Inr (PDict kvs)" and "\<not> py_eq_int (cod_field kvs) 200"
  shows "handle_message prov u text b
           = (Inr (), b\<lparr>requests := requests b @ [CurrentWeather text],
                        sent := sent b @ [weather_failed_text]\<rparr>)"
  using assms
  by (simp add: handle_message_def get_weather_by_city_def reply_text_def cod_field_def)

lemma handle_message_passed:
  assumes "prov (CurrentWeather text) = Inr (PDict kvs)" and "py_eq_int (cod_field kvs) 200"
  shows "sent (snd (handle_message prov u text b)) \<noteq> sent b @ [weather_failed_text]"
  using assms
  by (auto simp: handle_message_def get_weather_by_city_def reply_text_def cod_field_def
      weather_reply_not_failed split: sum.splits prod.splits)

lemma handle_forecast_failed:
  assumes "split_maxsplit1 text = [cmd, city]"
    and "prov (Forecast city) = Inr (PDict kvs)" and "\<not> py_eq_str (cod_field kvs) ''200''"
  shows "handle_forecast prov text b
           = (Inr (), b\<lparr>requests := requests b @ [Forecast city],
                        sent := sent b @ [forecast_failed_text]\<rparr>)"
  using assms
  by (simp add: handle_forecast_def get_forecast_by_city_def reply_text_def cod_field_def)

lemma handle_forecast_passed:
  assumes "split_maxsplit1 text = [cmd, city]"
    and "prov (Forecast city) = Inr (PDict kvs)" and "py_eq_str (cod_field kvs) ''200''"
  shows "sent (snd (handle_forecast prov text b)) \<noteq> sent b @ [forecast_failed_text]"
  using assms
  by (auto simp: handle_forecast_def get_forecast_by_city_def reply_text_def cod_field_def
      forecast_reply_not_failed split: sum.splits prod.splits)

text \<open>
  C7. For a provider answer that is a dictionary: the current-weather handler sends the
  fixed failure reply, and does nothing else, exactly when \<open>cod\<close> does not equal 200,
  and the forecast handler exactly when \<open>cod\<close> does not equal the string \<open>"200"\<close>.
  Equality is Python's \<^verbatim>\<open>==\<close>: the number 200 (also written as the float \<open>200.0\<close>) for
  the first, the string alone for the second; the string \<open>"200"\<close> fails the first test
  and the number 200 the second.
\<close>

theorem success_status_per_endpoint:
  assumes "prov (CurrentWeather text) = Inr (PDict kvs)"
    and "split_maxsplit1 ftext = [cmd, city]"
    and "prov (Forecast city) = Inr (PDict fkvs)"
  shows "(if py_eq_int (cod_field kvs) 200
          then sent (snd (handle_message prov u text b)) \<noteq> sent b @ [weather_failed_text]
          else handle_message prov u text b
                 = (Inr (), b\<lparr>requests := requests b @ [CurrentWeather text],
                              sent := sent b @ [weather_failed_text]\<rparr>))
       \<and> (if py_eq_str (cod_field fkvs) ''200''
          then sent (snd (handle_forecast prov ftext b)) \<noteq> sent b @ [forecast_failed_text]
          else handle_forecast prov ftext b
                 = (Inr (), b\<lparr>requests := requests b @ [Forecast city],
                              sent := sent b @ [forecast_failed_text]\<rparr>))
       \<and> (py_eq_int (cod_field kvs) 200
            \<longleftrightarrow> cod_field kvs = PInt 200 \<or> cod_field kvs = PFloat ''200.0'')
       \<and> (py_eq_str (cod_field fkvs) ''200'' \<longleftrightarrow> cod_field fkvs = PStr ''200'')"
  using assms handle_message_failed [of prov "text" kvs u b]
    handle_message_passed [of prov "text" kvs u b]
    handle_forecast_failed [of ftext cmd city prov fkvs b]
    handle_forecast_passed [of ftext cmd city prov fkvs b]
  by (simp add: py_eq_int_200 py_eq_str_iff)

theorem success_status_per_endpoint_witness:
  "handle_message swapped_codes 7 ''Paris'' new_bot
     = (Inr (), new_bot\<lparr>requests := [CurrentWeather ''Paris''], sent := [weather_failed_text]\<rparr>)
   \<and> handle_forecast swapped_codes ''/forecast Paris'' new_bot
     = (Inr (), new_bot\<lparr>requests := [Forecast ''Paris''], sent := [forecast_failed_text]\<rparr>)
   \<and> sent (snd (handle_message usual_codes 7 ''Paris'' new_bot)) \<noteq> [weather_failed_text]
   \<and> sent (snd (handle_forecast usual_codes ''/forecast Paris'' new_bot)) \<noteq> [forecast_failed_text]"
proof -
  have c: "swapped_codes (CurrentWeather ''Paris'') = Inr (PDict [(KStr ''cod'', PStr ''200'')])"
    and f: "swapped_codes (Forecast ''Paris'') = Inr (PDict [(KStr ''cod'', PInt 200)])"
    by simp_all
  have c': "usual_codes (CurrentWeather ''Paris'') = Inr (PDict [(KStr ''cod'', PInt 200),
     (KStr ''weather'', PList [PDict [(KStr ''description'', PStr ''clear sky'')]]),
     (KStr ''main'', PDict [(KStr ''temp'', PFloat ''18.5'')])])"
    and f': "usual_codes (Forecast ''Paris'')
               = Inr (PDict [(KStr ''cod'', PStr ''200''), (KStr ''list'', PList seven_points)])"
    by (simp_all add: paris_def forecast_of_def)
  from success_status_per_endpoint [OF c split_forecast_paris f, of 7 new_bot]
    success_status_per_endpoint [OF c' split_forecast_paris f', of 7 new_bot]
  show ?thesis
    by (simp add: cod_field_def new_bot_def)
qed

subsection \<open>The forecast reply\<close>

lemma collect_Inr:
  "collect f xs = Inr ys \<Longrightarrow> length ys = length xs \<and> (\<forall>i < length xs. f (xs ! i) = Inr (ys ! i))"
proof (induction xs arbitrary: ys)
  case Nil
  then show ?case by simp
next
  case (Cons x xs)
  from Cons.prems obtain y ys' where y: "f x = Inr y" and r: "collect f xs = Inr ys'"
    and ys: "ys = y # ys'"
    by (auto split: sum.splits)
  from Cons.IH [OF r] y show ?case
    by (auto simp: ys nth_Cons split: nat.splits)
qed

lemma collect_total:
  "\<forall>x \<in> set xs. \<exists>y. f x = Inr y \<Longrightarrow> \<exists>ys. collect f xs = Inr ys"
  by (induction xs) auto

text \<open>
  C4. A forecast answer with the success code whose first five points (or all, when there
  are fewer) can be rendered: the handler replies once, with the header line followed by
  one line for each of the first \<open>min 5 n\<close> points, in the provider's order. Points after
  the fifth are never looked at.
\<close>

theorem forecast_reply_first_five:
  assumes "split_maxsplit1 text = [cmd, city]"
    and "prov (Forecast city) = Inr (PDict kvs)"
    and "cod_field kvs = PStr ''200''"
    and "py_get (PDict kvs) ''list'' (PList []) = Inr (PList points)"
    and "\<forall>p \<in> set (take 5 points). \<exists>l. forecast_line p = Inr l"
  shows "\<exists>lines.
           handle_forecast prov text b
             = (Inr (), b\<lparr>requests := requests b @ [Forecast city],
                          sent := sent b @ [join [newline] (forecast_header city # lines)]\<rparr>)
           \<and> length lines = min 5 (length points)
           \<and> (\<forall>i < length lines. forecast_line (points ! i) = Inr (lines ! i))"
proof -
  from collect_total [OF assms(5)] obtain lines
    where c: "collect forecast_line (take 5 points) = Inr lines" ..
  from collect_Inr [OF c]
  have l: "length lines = min 5 (length points)"
    and n: "\<forall>i < length lines. forecast_line (points ! i) = Inr (lines ! i)"
    by (auto simp: min_def)
  from assms(4) have g: "(case map_of kvs (KStr ''list'') of None \<Rightarrow> PList [] | Some v \<Rightarrow> v) = PList points"
    by simp
  have "handle_forecast prov text b
          = (Inr (), b\<lparr>requests := requests b @ [Forecast city],
                       sent := sent b @ [join [newline] (forecast_header city # lines)]\<rparr>)"
    using assms(1,2,3) c
    by (simp add: handle_forecast_def get_forecast_by_city_def reply_text_def cod_field_def g)
  with l n show ?thesis by blast
qed

lemma capitalize_light_rain: "capitalize ''light rain'' = ''Light rain''"
  by code_simp

lemma forecast_line_point:
  "forecast_line (point dt) = Inr (forecast_text (PStr dt) ''Light rain'' (PInt 7))"
  by (simp add: forecast_line_def forecast_fields_def point_def position_def py_capitalize_def
      capitalize_light_rain del: capitalize.simps)

theorem forecast_reply_first_five_witness:
  "length seven_points = 7
   \<and> (\<exists>lines. handle_forecast usual_codes ''/forecast Paris'' new_bot
         = (Inr (), new_bot\<lparr>requests := requests new_bot @ [Forecast ''Paris''],
              sent := sent new_bot @ [join [newline] (forecast_header ''Paris'' # lines)]\<rparr>)
         \<and> length lines = 5)
   \<and> sent (snd (handle_forecast usual_codes ''/forecast Paris'' new_bot))
       = [''Weather forecast for Paris:'' @ [newline]
          @ ''d1: Light rain, Temp: 7'' @ [degree] @ ''C'' @ [newline]
          @ ''d2: Light rain, Temp: 7'' @ [degree] @ ''C'' @ [newline]
          @ ''d3: Light rain, Temp: 7'' @ [degree] @ ''C'' @ [newline]
          @ ''d4: Light rain, Temp: 7'' @ [degree] @ ''C'' @ [newline]
          @ ''d5: Light rain, Temp: 7'' @ [degree] @ ''C'']"
proof -
  have n: "length seven_points = 7" by (simp add: seven_points_def)
  have f: "usual_codes (Forecast ''Paris'')
             = Inr (PDict [(KStr ''cod'', PStr ''200''), (KStr ''list'', PList seven_points)])"
    by (simp add: forecast_of_def)
  have c: "cod_field [(KStr ''cod'', PStr ''200''), (KStr ''list'', PList seven_points)] = PStr ''200''"
    by (simp add: cod_field_def)
  have g: "py_get (PDict [(KStr ''cod'', PStr ''200''), (KStr ''list'', PList seven_points)])
             ''list'' (PList []) = Inr (PList seven_points)"
    by simp
  have t: "take 5 seven_points = [point ''d1'', point ''d2'', point ''d3'', point ''d4'', point ''d5'']"
    by (simp add: seven_points_def)
  have w: "\<forall>p \<in> set (take 5 seven_points). \<exists>l. forecast_line p = Inr l"
    unfolding t by (simp add: forecast_line_point)
  from forecast_reply_first_five [where prov = usual_codes and b = new_bot, OF split_forecast_paris f c g w]
  obtain lines where h: "handle_forecast usual_codes ''/forecast Paris'' new_bot
         = (Inr (), new_bot\<lparr>requests := requests new_bot @ [Forecast ''Paris''],
              sent := sent new_bot @ [join [newline] (forecast_header ''Paris'' # lines)]\<rparr>)"
    and l: "length lines = 5"
    by (auto simp: n)
  have "sent (snd (handle_forecast usual_codes ''/forecast Paris'' new_bot))
       = [''Weather forecast for Paris:'' @ [newline]
          @ ''d1: Light rain, Temp: 7'' @ [degree] @ ''C'' @ [newline]
          @ ''d2: Light rain, Temp: 7'' @ [degree] @ ''C'' @ [newline]
          @ ''d3: Light rain, Temp: 7'' @ [degree] @ ''C'' @ [newline]
          @ ''d4: Light rain, Temp: 7'' @ [degree] @ ''C'' @ [newline]
          @ ''d5: Light rain, Temp: 7'' @ [degree] @ ''C'']"
    by (simp add: handle_forecast_def split_forecast_paris get_forecast_by_city_def
        forecast_of_def t forecast_line_point reply_text_def new_bot_def forecast_header_def
        forecast_text_def py_str_def str_int_7)
  with n h l show ?thesis by blast
qed

subsection \<open>Partial payloads\<close>












text \<open>
  The default \<^verbatim>\<open>[{}]\<close> of the history loop stands in for an absent \<open>weather\<close> member
  only; a \<open>weather\<close> list that is present and empty is subscripted as it is.
\<close>

lemma history_line_empty_weather_list:
  "history_line (entry ''Oslo'' (PDict [(KStr ''cod'', PInt 200), (KStr ''weather'', PList [])]))
     = Inl IndexError"
  by (simp add: history_line_def entry_def position_def)

subsection \<open>Capitalisation\<close>

lemma to_lower_upper:
  assumes "is_upper c"
  shows "to_lower c \<noteq> c" and "\<not> is_upper (to_lower c)" and "small_letter (to_lower c)"
    and "to_title (to_lower c) = [c]"
proof -
  let ?n = "of_char c :: nat"
  have b: "?n < 256" by simp
  from assms have r: "(65 \<le> ?n \<and> ?n \<le> 90) \<or> (192 \<le> ?n \<and> ?n \<le> 222 \<and> ?n \<noteq> 215)"
    by (simp add: is_upper_def Let_def)
  then have m: "(?n + 32) mod 256 = ?n + 32" by auto
  have l: "to_lower c = char_of (?n + 32)" using assms by (simp add: to_lower_def)
  have o: "(of_char (to_lower c) :: nat) = ?n + 32"
    unfolding l by (simp add: m)
  from o show "to_lower c \<noteq> c" by auto
  from o r show "\<not> is_upper (to_lower c)" by (auto simp: is_upper_def Let_def)
  from o r show s: "small_letter (to_lower c)" by (auto simp: small_letter_def Let_def)
  from s o show "to_title (to_lower c) = [c]" by (simp add: to_title_def)
qed

lemma to_lower_other: "\<not> is_upper c \<Longrightarrow> to_lower c = c"
  by (simp add: to_lower_def)

lemma capitalize_take_drop:
  "capitalize d = concat (map to_title (take 1 d)) @ map to_lower (drop 1 d)"
  by (cases d) simp_all

lemma capitalize_first_only_iff:
  "capitalize s = capitalize_first_only s \<longleftrightarrow> (\<forall>c \<in> set (drop 1 s). \<not> is_upper c)"
proof (cases s)
  case Nil
  then show ?thesis by simp
next
  case (Cons c cs)
  have "map to_lower cs = cs \<longleftrightarrow> (\<forall>c \<in> set cs. \<not> is_upper c)"
    using to_lower_upper(1) to_lower_other by (induction cs) auto
  then show ?thesis by (simp add: Cons)
qed

lemma save_weather_request_ok:
  assumes "store_inv (data s)" and "writable s"
  shows "fst (save_weather_request u city weather s) = Inr ()"
proof -
  from assms(1) obtain kvs where d: "data s = PDict kvs"
    and c: "map_of kvs (KInt u) = None \<and> stored (data s) u = [] \<or>
            map_of kvs (KInt u) = Some (PList (stored (data s) u))"
    by (rule store_inv_cases)
  from c assms(2) show ?thesis
    by (auto simp: save_weather_request_def d save_data_def map_of_dict_set Let_def)
qed

lemma capitalize_clear_sky: "capitalize ''clear SKY'' = ''Clear sky''"
  by code_simp

lemma capitalize_first_only_clear_sky: "capitalize_first_only ''clear SKY'' = ''Clear SKY''"
  by code_simp

text \<open>
  C9, as claimed, fails: \<^verbatim>\<open>str.capitalize\<close> also puts every character after the first in
  lower case, so a description with capitals after its first letter is not left unchanged
  there. For \<open>clear SKY\<close> the reply reads \<open>Clear sky\<close>; capitalising the first letter
  only would give \<open>Clear SKY\<close>.
\<close>

theorem capitalize_lowers_rest_counterexample:
  "current_fields shouting = Inr (PStr ''clear SKY'', PFloat ''18.5'')
   \<and> sent (snd (handle_message (always shouting) 7 ''Paris'' new_bot))
       = [''Weather in Paris:'' @ [newline] @ ''Clear sky'' @ [newline]
          @ ''Temperature: 18.5'' @ [degree] @ ''C'' @ [newline]]
   \<and> capitalize_first_only ''clear SKY'' = ''Clear SKY''"
  by (simp add: shouting_def handle_message_def get_weather_by_city_def always_def new_bot_def
      current_fields_def position_def str_int_200 empty_storage_def save_weather_request_def
      save_data_def py_capitalize_def capitalize_clear_sky capitalize_first_only_clear_sky
      reply_text_def weather_reply_def py_str_def del: capitalize.simps capitalize_first_only.simps)

lemma handle_message_reply:
  assumes "prov (CurrentWeather text) = Inr weather"
    and "py_get weather ''cod'' PNone = Inr cod" and "py_eq_int cod 200"
    and "current_fields weather = Inr (PStr d, t)"
    and "store_inv (data (data_storage b))" and "writable (data_storage b)"
  shows "sent (snd (handle_message prov u text b))
           = sent b @ [weather_reply text (capitalize d) t]"
proof -
  from save_weather_request_ok [OF assms(5,6), of u "text" weather]
  obtain s where s: "save_weather_request u text weather (data_storage b) = (Inr (), s)"
    by (cases "save_weather_request u text weather (data_storage b)") auto
  show ?thesis
    using assms(1,2,3,4) s
    by (simp add: handle_message_def get_weather_by_city_def py_capitalize_def reply_text_def
        del: capitalize.simps)
qed

lemma forecast_line_reply:
  assumes "forecast_fields p = Inr (dt, PStr d, t)"
  shows "forecast_line p = Inr (forecast_text dt (capitalize d) t)"
  using assms by (simp add: forecast_line_def py_capitalize_def del: capitalize.simps)

text \<open>
  C9, amended. In a successful current-weather reply and in a forecast line every
  description is shown as \<^verbatim>\<open>str.capitalize\<close> gives it: its first character in title
  case, every other character in lower case. A capital after the first character is
  replaced by its small letter (a different character, whose title case is the capital
  again); a character that is no capital is left as it is. So the description is shown
  with only its first letter changed exactly when it has no capital after the first
  character. The first character of the description is one whose title case is text of the
  model. The witness has the Paris scenario: the reply contains \<open>Clear sky\<close> and \<open>18.5\<close>
  followed by the degree sign and \<open>C\<close>, and the user's history then holds the one entry
  for Paris.
\<close>

theorem description_capitalized:
  assumes "title_in_text d"
    and "prov (CurrentWeather text) = Inr weather"
    and "py_get weather ''cod'' PNone = Inr cod" and "py_eq_int cod 200"
    and "current_fields weather = Inr (PStr d, t)"
    and "store_inv (data (data_storage b))" and "writable (data_storage b)"
    and "title_in_text d'"
    and "forecast_fields p = Inr (dt, PStr d', t')"
  shows "sent (snd (handle_message prov u text b))
           = sent b @ [weather_reply text
                         (concat (map to_title (take 1 d)) @ map to_lower (drop 1 d)) t]
       \<and> forecast_line p
           = Inr (forecast_text dt
                    (concat (map to_title (take 1 d')) @ map to_lower (drop 1 d')) t')
       \<and> (\<forall>c. is_upper c \<longrightarrow>
              to_lower c \<noteq> c \<and> small_letter (to_lower c) \<and> to_title (to_lower c) = [c])
       \<and> (\<forall>c. \<not> is_upper c \<longrightarrow> to_lower c = c)
       \<and> (\<forall>s. capitalize s = capitalize_first_only s
                 \<longleftrightarrow> (\<forall>c \<in> set (drop 1 s). \<not> is_upper c))"
  using handle_message_reply [of prov "text" weather cod d t b u, OF assms(2-7)]
    forecast_line_reply [OF assms(9)]
    to_lower_upper to_lower_other capitalize_first_only_iff
  by (simp add: capitalize_take_drop del: capitalize.simps capitalize_first_only.simps)

lemma capitalized_examples:
  "concat (map to_title (take 1 ''clear sky'')) @ map to_lower (drop 1 ''clear sky'') = ''Clear sky''"
  "concat (map to_title (take 1 ''clear SKY'')) @ map to_lower (drop 1 ''clear SKY'') = ''Clear sky''"
  "concat (map to_title (take 1 ''light rain'')) @ map to_lower (drop 1 ''light rain'')
     = ''Light rain''"
  "to_lower CHR ''S'' = CHR ''s''" "to_lower CHR ''k'' = CHR ''k''"
  "is_upper CHR ''S''" "\<not> is_upper CHR ''k''"
  by code_simp+

theorem description_capitalized_witness:
  "sent (snd (handle_message usual_codes 7 ''Paris'' new_bot))
     = [''Weather in Paris:'' @ [newline] @ ''Clear sky'' @ [newline]
        @ ''Temperature: 18.5'' @ [degree] @ ''C'' @ [newline]]
   \<and> sent (snd (handle_message (always shouting) 7 ''Paris'' new_bot))
     = [''Weather in Paris:'' @ [newline] @ ''Clear sky'' @ [newline]
        @ ''Temperature: 18.5'' @ [degree] @ ''C'' @ [newline]]
   \<and> forecast_line (point ''2024-05-01 12:00:00'')
       = Inr (''2024-05-01 12:00:00: Light rain, Temp: 7'' @ [degree] @ ''C'')
   \<and> to_lower CHR ''S'' \<noteq> CHR ''S'' \<and> to_title (to_lower CHR ''S'') = ''S''
   \<and> to_lower CHR ''k'' = CHR ''k''
   \<and> capitalize ''clear SKY'' \<noteq> capitalize_first_only ''clear SKY''
   \<and> capitalize ''clear sky'' = capitalize_first_only ''clear sky''
   \<and> get_user_history 7 (data_storage (snd (handle_message usual_codes 7 ''Paris'' new_bot)))
       = Inr (PList [entry ''Paris'' paris])"
proof -
  have a: "title_in_text ''clear sky''" and a': "title_in_text ''light rain''"
    and a'': "title_in_text ''clear SKY''"
    by simp_all
  have p: "usual_codes (CurrentWeather ''Paris'') = Inr paris" by simp
  have c: "py_get paris ''cod'' PNone = Inr (PInt 200)" by (simp add: paris_def)
  have e: "py_eq_int (PInt 200) 200" by simp
  have f: "current_fields paris = Inr (PStr ''clear sky'', PFloat ''18.5'')"
    by (simp add: current_fields_def paris_def position_def)
  have p2: "always shouting (CurrentWeather ''Paris'') = Inr shouting" by (simp add: always_def)
  have c2: "py_get shouting ''cod'' PNone = Inr (PInt 200)" by (simp add: shouting_def)
  have f2: "current_fields shouting = Inr (PStr ''clear SKY'', PFloat ''18.5'')"
    by (simp add: current_fields_def shouting_def position_def)
  have i: "store_inv (data (data_storage new_bot))"
    by (simp add: new_bot_def empty_storage_def store_inv_def)
  have w: "writable (data_storage new_bot)"
    by (simp add: new_bot_def empty_storage_def)
  have g: "forecast_fields (point ''2024-05-01 12:00:00'')
             = Inr (PStr ''2024-05-01 12:00:00'', PStr ''light rain'', PInt 7)"
    by (simp add: forecast_fields_def point_def position_def)
  have h: "get_user_history 7 (data_storage (snd (handle_message usual_codes 7 ''Paris'' new_bot)))
       = Inr (PList [entry ''Paris'' paris])"
    by (simp add: handle_message_storage lookup_succeeded_def c e f new_bot_def empty_storage_def
      save_weather_request_def save_data_def get_user_history_def)
  note r1 = description_capitalized
    [where prov = usual_codes and u = 7 and b = new_bot, OF a p c e f i w a' g]
  note r2 = description_capitalized
    [where prov = "always shouting" and u = 7 and b = new_bot, OF a'' p2 c2 e f2 i w a' g]
  have sn: "sent new_bot = []" by (simp add: new_bot_def)
  have u: "\<forall>c \<in> set (drop 1 ''clear sky''). \<not> is_upper c"
    by (simp add: is_upper_def)
  have k: "\<not> (\<forall>c \<in> set (drop 1 ''clear SKY''). \<not> is_upper c)"
    using capitalized_examples(6) by simp
  from r1 have q: "\<forall>s. capitalize s = capitalize_first_only s
                 \<longleftrightarrow> (\<forall>c \<in> set (drop 1 s). \<not> is_upper c)"
    by blast
  from q u have x1: "capitalize ''clear sky'' = capitalize_first_only ''clear sky''" by blast
  from q k have x2: "capitalize ''clear SKY'' \<noteq> capitalize_first_only ''clear SKY''" by blast
  from r1 have y: "to_lower CHR ''S'' \<noteq> CHR ''S'' \<and> to_title (to_lower CHR ''S'') = ''S''"
    using capitalized_examples(6) by blast
  from r1 [unfolded capitalized_examples(1,3)]
  have s1: "sent (snd (handle_message usual_codes 7 ''Paris'' new_bot))
              = sent new_bot @ [weather_reply ''Paris'' ''Clear sky'' (PFloat ''18.5'')]"
    and s3: "forecast_line (point ''2024-05-01 12:00:00'')
              = Inr (forecast_text (PStr ''2024-05-01 12:00:00'') ''Light rain'' (PInt 7))"
    by blast+
  from r2 [unfolded capitalized_examples(2,3)]
  have s2: "sent (snd (handle_message (always shouting) 7 ''Paris'' new_bot))
              = sent new_bot @ [weather_reply ''Paris'' ''Clear sky'' (PFloat ''18.5'')]"
    by blast
  from x1 x2 y show ?thesis
    by (simp add: s1 s2 s3 h sn capitalized_examples(5) weather_reply_def forecast_text_def
        py_str_def str_int_7 del: capitalize.simps capitalize_first_only.simps)
qed

end
